theory Spec2Isabelle
  imports Complex_Main "HOL-Library.AList"
begin

section \<open>The DynamoDB Local server supervisor of localstack\<close>

text \<open>
  A shallow embedding of \<^verbatim>\<open>localstack/services/dynamodb/server.py\<close>: the class
  \<^verbatim>\<open>DynamodbServer\<close>, its constructor, the command line it builds for the child
  process, and its start and stop operations. Module-level configuration and what the
  operating system answers are explicit arguments; exceptions are values of a sum type.
\<close>

subsection \<open>Python values\<close>

text \<open>Truthiness of a value of type \<^verbatim>\<open>str | None\<close> and of \<^verbatim>\<open>int | None\<close>.\<close>

definition truthy :: "string option \<Rightarrow> bool" where
  "truthy v = (case v of None \<Rightarrow> False | Some s \<Rightarrow> s \<noteq> [])"

definition truthy_int :: "int option \<Rightarrow> bool" where
  "truthy_int v = (case v of None \<Rightarrow> False | Some i \<Rightarrow> i \<noteq> 0)"

text \<open>How an f-string renders a value of type \<^verbatim>\<open>str | None\<close>.\<close>

definition fmt :: "string option \<Rightarrow> string" where
  "fmt v = (case v of None \<Rightarrow> ''None'' | Some s \<Rightarrow> s)"

text \<open>\<^verbatim>\<open>str(n)\<close> for an integer: decimal digits, with a sign for a negative one.\<close>

definition digit :: "nat \<Rightarrow> char" where
  "digit d = ''0123456789'' ! (d mod 10)"

fun str_nat :: "nat \<Rightarrow> string" where
  "str_nat n = (if n < 10 then [digit n] else str_nat (n div 10) @ [digit (n mod 10)])"

declare str_nat.simps [simp del]

definition str :: "int \<Rightarrow> string" where
  "str i = (if i < 0 then CHR ''-'' # str_nat (nat (- i)) else str_nat (nat i))"

text \<open>Two neighbouring elements of an argument vector: an option and its value.\<close>

fun adjacent :: "'a \<Rightarrow> 'a \<Rightarrow> 'a list \<Rightarrow> bool" where
  "adjacent a b (x # y # zs) = ((x = a \<and> y = b) \<or> adjacent a b (y # zs))"
| "adjacent a b zs = False"

subsection \<open>Configuration read by the class\<close>

text \<open>\<^verbatim>\<open>localstack.utils.platform.Arch\<close>, the value of \<^verbatim>\<open>get_arch()\<close>.\<close>

datatype Arch = amd64 | arm64

text \<open>
  What the module reads from outside the class: \<^verbatim>\<open>config.dirs\<close>, the persistence
  settings, the environment variables (\<^verbatim>\<open>is_env_true\<close>, \<^verbatim>\<open>os.getenv\<close>), the port
  that \<^verbatim>\<open>get_free_tcp_port()\<close> hands out, \<^verbatim>\<open>os.path.abspath\<close>, the machine
  architecture and the installer of the DynamoDB Local package.
\<close>

record config =
  dirs_data :: "string option"
  dirs_tmp :: "string option"
  is_persistence_enabled :: bool
  SNAPSHOT_SAVE_STRATEGY :: string
  is_env_true :: "string \<Rightarrow> bool"
  getenv :: "string \<Rightarrow> string option"
  DYNAMODB_HEAP_SIZE :: string
  DYNAMODB_LOCAL_PORT :: int
  get_free_tcp_port :: int
  abspath :: "string \<Rightarrow> string"
  get_arch :: Arch
  get_installed_dir :: "string option"
  get_ddb_agent_jar_path :: "string option"
  get_java_env_vars :: "(string \<times> string) list"

subsection \<open>The server object\<close>

text \<open>
  The watcher thread (\<^verbatim>\<open>ShellCommandThread\<close>) as far as the class touches it: its
  \<^verbatim>\<open>auto_restart\<close> flag, the command and environment it runs, and the process id of
  its child (\<^verbatim>\<open>thread.process.pid\<close>), absent while the thread has no process.
\<close>

record thread_handle =
  auto_restart :: bool
  cmd :: "string list"
  env_vars :: "(string \<times> string) list"
  process_pid :: "nat option"

text \<open>
  The fields of \<^verbatim>\<open>DynamodbServer\<close>, and those of its base class \<^verbatim>\<open>Server\<close> that the
  methods below read and write: \<^verbatim>\<open>port\<close>, \<^verbatim>\<open>host\<close>, the events \<^verbatim>\<open>_started\<close>
  and \<^verbatim>\<open>_stopped\<close>, and \<^verbatim>\<open>_thread\<close>. The request proxy built from the server's
  URL is not part of the lifecycle and is left out.
\<close>

record server =
  port :: int
  host :: string
  db_path :: "string option"
  heap_size :: string
  delay_transient_statuses :: bool
  optimize_db_before_startup :: bool
  share_db :: bool
  cors :: "string option"
  started :: bool
  stopped :: bool
  thread :: "thread_handle option"

text \<open>
  The constructor, lines 39 to 82. A falsy \<^verbatim>\<open>port\<close> (omitted, \<^verbatim>\<open>None\<close> or 0) is
  replaced by a free port. The data path is the configured data directory unless one is
  given, then the temporary directory under the manual snapshot strategy, then
  \<^verbatim>\<open>None\<close> when \<^verbatim>\<open>DYNAMODB_IN_MEMORY\<close> is set; a truthy path is made absolute.
  The debug line logged under the manual strategy is not modelled.
\<close>

definition init_port :: "config \<Rightarrow> int option \<Rightarrow> int" where
  "init_port c p = (if truthy_int p then (case p of Some i \<Rightarrow> i | None \<Rightarrow> 0) else get_free_tcp_port c)"

definition init_db_path :: "config \<Rightarrow> string option \<Rightarrow> string option" where
  "init_db_path c p =
    (let p1 = (if \<not> truthy p \<and> truthy (dirs_data c)
               then Some (fmt (dirs_data c) @ ''/dynamodb'') else p);
         p2 = (if is_persistence_enabled c \<and> SNAPSHOT_SAVE_STRATEGY c = ''MANUAL''
               then Some (fmt (dirs_tmp c) @ ''/dynamodb'') else p1);
         p3 = (if is_env_true c ''DYNAMODB_IN_MEMORY'' then None else p2)
     in if truthy p3 then Some (abspath c (fmt p3)) else p3)"

definition DynamodbServer :: "config \<Rightarrow> int option \<Rightarrow> string \<Rightarrow> string option \<Rightarrow> server" where
  "DynamodbServer c p h dbp =
    \<lparr> port = init_port c p,
      host = h,
      db_path = init_db_path c dbp,
      heap_size = DYNAMODB_HEAP_SIZE c,
      delay_transient_statuses = is_env_true c ''DYNAMODB_DELAY_TRANSIENT_STATUSES'',
      optimize_db_before_startup = is_env_true c ''DYNAMODB_OPTIMIZE_DB_BEFORE_STARTUP'',
      share_db = is_env_true c ''DYNAMODB_SHARE_DB'',
      cors = getenv c ''DYNAMODB_CORS'',
      started = False,
      stopped = False,
      thread = None \<rparr>"

text \<open>\<^verbatim>\<open>DynamodbServer.get()\<close>: the singleton is built from the configured port.\<close>

definition get :: "config \<Rightarrow> server" where
  "get c = DynamodbServer c (Some (DYNAMODB_LOCAL_PORT c)) ''localhost'' None"

definition in_memory :: "server \<Rightarrow> bool" where
  "in_memory s = (db_path s = None)"

definition jar_path :: "config \<Rightarrow> string" where
  "jar_path c = fmt (get_installed_dir c) @ ''/DynamoDBLocal.jar''"

definition library_path :: "config \<Rightarrow> string" where
  "library_path c = fmt (get_installed_dir c) @ ''/DynamoDBLocal_lib''"

subsection \<open>The command line\<close>

definition get_java_vm_options :: "config \<Rightarrow> string list" where
  "get_java_vm_options c = (if arm64 = get_arch c then [''-XX:UseSVE=0''] else [])"

definition java_command :: "config \<Rightarrow> server \<Rightarrow> string list" where
  "java_command c s =
    [''java''] @ get_java_vm_options c @
    [''-Xmx'' @ heap_size s,
     ''-javaagent:'' @ fmt (get_ddb_agent_jar_path c),
     ''-Djava.library.path='' @ library_path c,
     ''-jar'',
     jar_path c]"

definition parameters :: "server \<Rightarrow> string list" where
  "parameters s =
    [''-port'', str (port s)] @
    (if in_memory s then [''-inMemory''] else []) @
    (if truthy (db_path s) then [''-dbPath'', fmt (db_path s)] else []) @
    (if delay_transient_statuses s then [''-delayTransientStatuses''] else []) @
    (if optimize_db_before_startup s then [''-optimizeDbBeforeStartup''] else []) @
    (if share_db s then [''-sharedDb''] else [])"

definition create_shell_command :: "config \<Rightarrow> server \<Rightarrow> string list" where
  "create_shell_command c s = java_command c s @ parameters s"

subsection \<open>Exceptions and effects\<close>

text \<open>
  An exception that reaches the caller is a value: each constructor names the call that
  raised. \<^verbatim>\<open>TypeError\<close>, \<^verbatim>\<open>KeyError\<close> and \<^verbatim>\<open>AssertionError\<close> are what the last
  lines of \<^verbatim>\<open>check_dynamodb\<close> raise.
\<close>

datatype error =
  ShutdownFailed | JoinFailed | PortNotClosed | PsFailed | PidUnavailable | NoSuchProcess
  | MkdirFailed | InstallFailed | SpawnFailed | TypeError | KeyError | AssertionError

text \<open>
  What an operation does to the world beyond the server object, in the order it does it:
  every call that leaves the class is one action (times in seconds).
\<close>

datatype action =
  ClearStarted | ClearStopped
  | Mkdir string
  | Install
  | LogDebug | LogInfo | LogWarning | LogException | LogSuppressed
  | AppendTmpThreads
  | Spawn "string list" "(string \<times> string) list"
  | CheckHealth
  | Sleep rat
  | SetAutoRestart bool
  | Shutdown
  | Join rat
  | ProbePort int
  | RunPs
  | LookupProcess nat
  | Terminate nat
  | Kill nat

fun is_spawn :: "action \<Rightarrow> bool" where
  "is_spawn (Spawn a e) = True"
| "is_spawn x = False"

definition spawns :: "action list \<Rightarrow> nat" where
  "spawns tr = length (filter is_spawn tr)"

fun is_forced_kill :: "action \<Rightarrow> bool" where
  "is_forced_kill (Terminate p) = True"
| "is_forced_kill (Kill p) = True"
| "is_forced_kill (LookupProcess p) = True"
| "is_forced_kill x = False"

subsection \<open>Helpers of localstack.utils\<close>

text \<open>
  Modelled from the spec: \<^verbatim>\<open>retry\<close> (localstack.utils.sync) is not among the sources.
  The spec calls it a bounded retry loop with fixed linear backoff whose exhaustion
  raises: a call with \<^verbatim>\<open>retries = n\<close> makes up to \<open>n\<close> attempts ("poll up to 10
  times"), sleeps after each failed one ("10 retries at 0.4s spacing, about 4s
  elapsed"), returns the first result and raises the last error when none is left.
  The function under retry is given by what its \<open>k\<close>-th call returns and does.
\<close>

fun retry_loop ::
  "(nat \<Rightarrow> (error + 'a) \<times> action list) \<Rightarrow> rat \<Rightarrow> nat \<Rightarrow> nat \<Rightarrow> error \<Rightarrow> (error + 'a) \<times> action list" where
  "retry_loop f sl 0 k e = (Inl e, [])"
| "retry_loop f sl (Suc n) k e =
    (case f k of
      (Inr v, tr) \<Rightarrow> (Inr v, tr)
    | (Inl e', tr) \<Rightarrow> (case retry_loop f sl n (Suc k) e' of (r, tr') \<Rightarrow> (r, tr @ Sleep sl # tr')))"

text \<open>
  Modelled from the spec: \<^verbatim>\<open>retry(function, sleep, retries)\<close> is the loop above from
  the first call on; with nothing attempted, raising the initial \<^verbatim>\<open>None\<close> is a
  \<^verbatim>\<open>TypeError\<close>.
\<close>

definition retry :: "(nat \<Rightarrow> (error + 'a) \<times> action list) \<Rightarrow> rat \<Rightarrow> nat \<Rightarrow> (error + 'a) \<times> action list" where
  "retry f sl retries = retry_loop f sl retries 0 TypeError"

text \<open>
  Modelled from the spec: \<^verbatim>\<open>wait_for_port_closed\<close> (localstack.utils.net) is not among
  the sources. It polls the port and returns once no listener holds it; when the retries
  are exhausted it raises, which is what the \<^verbatim>\<open>try\<close> around its first call in
  \<^verbatim>\<open>stop_dynamodb\<close> catches. \<open>still_open k\<close> is what the \<open>k\<close>-th poll sees.
\<close>

definition wait_for_port_closed ::
  "int \<Rightarrow> rat \<Rightarrow> nat \<Rightarrow> (nat \<Rightarrow> bool) \<Rightarrow> (error + unit) \<times> action list" where
  "wait_for_port_closed p sleep_time retries still_open =
    retry (\<lambda>k. (if still_open k then Inl PortNotClosed else Inr (), [ProbePort p])) sleep_time retries"

text \<open>
  Modelled from the spec: \<^verbatim>\<open>run_safe\<close> (localstack.utils.functions) is not among the
  sources. It runs the call best-effort: an error is swallowed and logged, never raised.
\<close>

definition run_safe :: "bool \<Rightarrow> action \<Rightarrow> action list" where
  "run_safe raises a = (if raises then [a, LogSuppressed] else [a])"

subsection \<open>The base class Server\<close>

text \<open>
  The class \<^verbatim>\<open>Server\<close> (localstack.utils.serving) is not among the sources; the four
  methods of it that \<^verbatim>\<open>DynamodbServer\<close> calls are modelled from the spec.
\<close>

text \<open>
  Modelled from the spec: \<^verbatim>\<open>Server.is_running\<close> is the process-alive check: the
  server was started, not stopped, and its thread is alive (\<open>alive\<close> is what the thread
  answers). Its second liveness check, \<^verbatim>\<open>is_up\<close>, is an answer of the world.
\<close>

definition is_running :: "server \<Rightarrow> bool \<Rightarrow> bool" where
  "is_running s alive = (started s \<and> \<not> stopped s \<and> thread s \<noteq> None \<and> alive)"

text \<open>
  Modelled from the spec: \<^verbatim>\<open>Server.shutdown\<close> sends the graceful shutdown and marks
  the server stopped, unless the call raises.
\<close>

definition shutdown :: "bool \<Rightarrow> server \<Rightarrow> (error + unit) \<times> server \<times> action list" where
  "shutdown raises s =
    (if raises then (Inl ShutdownFailed, s, [Shutdown])
     else (Inr (), s\<lparr>stopped := True\<rparr>, [Shutdown]))"

text \<open>
  Modelled from the spec: \<^verbatim>\<open>Server.join\<close> waits for the thread, up to the timeout.
\<close>

definition join :: "bool \<Rightarrow> rat \<Rightarrow> (error + unit) \<times> action list" where
  "join raises timeout = ((if raises then Inl JoinFailed else Inr ()), [Join timeout])"

subsection \<open>Starting the server\<close>

text \<open>
  What the world answers during one call of \<^verbatim>\<open>start_dynamodb\<close>: whether the thread is
  alive, whether the health check of \<^verbatim>\<open>is_up()\<close> passes, which of the calls raise, the
  process id of the spawned child, and what the \<open>k\<close>-th health check of
  \<^verbatim>\<open>check_dynamodb\<close> gets back from \<^verbatim>\<open>list_tables()\<close>: nothing when the request
  raised, else the response with its \<^verbatim>\<open>TableNames\<close> entry, if it has one.
\<close>

datatype table_names = ListOf "string list" | NotAList

record start_outcomes =
  thread_alive :: bool
  is_up :: bool
  mkdir_raises :: bool
  install_raises :: bool
  spawn_raises :: bool
  child_pid :: "nat option"
  list_tables :: "nat \<Rightarrow> table_names option option"

text \<open>\<^verbatim>\<open>do_start_thread\<close>, lines 187 to 208.\<close>

definition do_start_thread ::
  "config \<Rightarrow> start_outcomes \<Rightarrow> server \<Rightarrow> (error + thread_handle) \<times> action list" where
  "do_start_thread c oc s =
    (if install_raises oc then (Inl InstallFailed, [Install])
     else
       let command = create_shell_command c s;
           ev = AList.update ''DDB_LOCAL_TELEMETRY'' ''0'' (get_java_env_vars c);
           t = \<lparr> auto_restart = True, cmd = command, env_vars = ev, process_pid = child_pid oc \<rparr>
       in if spawn_raises oc then (Inl SpawnFailed, [Install, LogDebug, AppendTmpThreads])
          else (Inr t, [Install, LogDebug, AppendTmpThreads, Spawn command ev]))"

text \<open>
  Modelled from the spec: \<^verbatim>\<open>Server.start\<close> starts the thread of
  \<^verbatim>\<open>do_start_thread\<close> once. As the comment in \<^verbatim>\<open>start_dynamodb\<close> says, a second
  start is refused until the flags are reset; it returns whether this call started the
  server.
\<close>

definition start ::
  "config \<Rightarrow> start_outcomes \<Rightarrow> server \<Rightarrow> (error + bool) \<times> server \<times> action list" where
  "start c oc s =
    (if started s then (Inr False, s, [])
     else (case do_start_thread c oc s of
        (Inl e, tr) \<Rightarrow> (Inl e, s, tr)
      | (Inr t, tr) \<Rightarrow> (Inr True, s\<lparr>started := True, thread := Some t\<rparr>, tr)))"

text \<open>
  \<^verbatim>\<open>check_dynamodb\<close>, lines 210 to 226: an exception of the request is logged and leaves
  \<^verbatim>\<open>out\<close> at \<^verbatim>\<open>None\<close>; the assertions then decide.
\<close>

definition check_dynamodb :: "table_names option option \<Rightarrow> bool \<Rightarrow> (error + unit) \<times> action list" where
  "check_dynamodb out expect_shutdown =
    (let tr = (if out = None then [CheckHealth, LogException] else [CheckHealth])
     in if expect_shutdown then ((if out = None then Inr () else Inl AssertionError), tr)
        else (case out of
            None \<Rightarrow> (Inl TypeError, tr)
          | Some None \<Rightarrow> (Inl KeyError, tr)
          | Some (Some NotAList) \<Rightarrow> (Inl AssertionError, tr)
          | Some (Some (ListOf names)) \<Rightarrow> (Inr (), tr)))"

text \<open>\<^verbatim>\<open>wait_for_dynamodb\<close>, lines 228 and 229.\<close>

definition wait_for_dynamodb :: "start_outcomes \<Rightarrow> (error + unit) \<times> action list" where
  "wait_for_dynamodb oc = retry (\<lambda>k. check_dynamodb (list_tables oc k) False) (2 / 5) 10"

text \<open>\<^verbatim>\<open>start_dynamodb\<close>, lines 89 to 113.\<close>

definition start_dynamodb ::
  "config \<Rightarrow> start_outcomes \<Rightarrow> server \<Rightarrow> (error + bool) \<times> server \<times> action list" where
  "start_dynamodb c oc s =
    (if is_running s (thread_alive oc) \<and> is_up oc then (Inr True, s, [])
     else
       let s1 = s\<lparr>started := False, stopped := False\<rparr>;
           tr1 = [ClearStarted, ClearStopped] @ (if truthy (db_path s1) then [Mkdir (fmt (db_path s1))] else [])
       in if truthy (db_path s1) \<and> mkdir_raises oc then (Inl MkdirFailed, s1, tr1)
          else (case start c oc s1 of
              (Inl e, s2, tr2) \<Rightarrow> (Inl e, s2, tr1 @ tr2)
            | (Inr was_started, s2, tr2) \<Rightarrow>
                (case wait_for_dynamodb oc of
                  (Inl e, tr3) \<Rightarrow> (Inl e, s2, tr1 @ tr2 @ tr3)
                | (Inr u, tr3) \<Rightarrow> (Inr was_started, s2, tr1 @ tr2 @ tr3))))"

subsection \<open>Stopping the server\<close>

text \<open>
  What the world answers during one call of \<^verbatim>\<open>stop_dynamodb\<close>: which calls raise, and
  whether the \<open>k\<close>-th poll of the first and of the second wait sees the port still open.
\<close>

record stop_outcomes =
  shutdown_raises :: bool
  join_raises :: bool
  port_open_1 :: "nat \<Rightarrow> bool"
  ps_raises :: bool
  process_missing :: bool
  terminate_raises :: bool
  kill_raises :: bool
  port_open_2 :: "nat \<Rightarrow> bool"

text \<open>
  The handler of lines 127 to 141: the warning with the process list, then the manual
  terminate and kill of the child, then the second wait, whose exception is not caught.
\<close>

definition kill_manually :: "stop_outcomes \<Rightarrow> server \<Rightarrow> thread_handle \<Rightarrow> (error + unit) \<times> action list" where
  "kill_manually oc s t =
    (if ps_raises oc then (Inl PsFailed, [RunPs])
     else (case process_pid t of
        None \<Rightarrow> (Inl PidUnavailable, [RunPs, LogWarning])
      | Some server_pid \<Rightarrow>
          if process_missing oc
          then (Inl NoSuchProcess, [RunPs, LogWarning, LogInfo, LookupProcess server_pid])
          else (case wait_for_port_closed (port s) (1 / 2) 8 (port_open_2 oc) of
              (r, tr) \<Rightarrow>
                (r, [RunPs, LogWarning, LogInfo, LookupProcess server_pid]
                    @ run_safe (terminate_raises oc) (Terminate server_pid)
                    @ run_safe (kill_raises oc) (Kill server_pid) @ tr))))"

text \<open>\<^verbatim>\<open>stop_dynamodb\<close>, lines 115 to 141.\<close>

definition stop_dynamodb :: "stop_outcomes \<Rightarrow> server \<Rightarrow> (error + unit) \<times> server \<times> action list" where
  "stop_dynamodb oc s =
    (case thread s of
      None \<Rightarrow> (Inr (), s, [])
    | Some t \<Rightarrow>
        let t1 = t\<lparr>auto_restart := False\<rparr>;
            s1 = s\<lparr>thread := Some t1\<rparr>
        in (case shutdown (shutdown_raises oc) s1 of
            (Inl e, s2, tr2) \<Rightarrow> (Inl e, s2, SetAutoRestart False # tr2)
          | (Inr u, s2, tr2) \<Rightarrow>
              (case join (join_raises oc) 10 of
                (Inl e, tr3) \<Rightarrow> (Inl e, s2, SetAutoRestart False # tr2 @ tr3)
              | (Inr u, tr3) \<Rightarrow>
                  (case wait_for_port_closed (port s2) (4 / 5) 10 (port_open_1 oc) of
                    (Inr u, tr4) \<Rightarrow> (Inr (), s2, SetAutoRestart False # tr2 @ tr3 @ tr4)
                  | (Inl e, tr4) \<Rightarrow>
                      (case kill_manually oc s2 t1 of
                        (r, tr5) \<Rightarrow> (r, s2, SetAutoRestart False # tr2 @ tr3 @ tr4 @ tr5))))))"

subsection \<open>Notions used to state the properties\<close>

text \<open>
  A string that starts with a dash reads as an option on a command line. The data path
  of a server is plain when it is not such a string: the constructor makes every truthy
  path absolute, so the paths it stores are plain.
\<close>

definition option_like :: "string \<Rightarrow> bool" where
  "option_like p = (case p of [] \<Rightarrow> False | ch # r \<Rightarrow> ch = CHR ''-'')"

definition plain_db_path :: "server \<Rightarrow> bool" where
  "plain_db_path s = (case db_path s of None \<Rightarrow> True | Some p \<Rightarrow> \<not> option_like p)"

text \<open>
  The trace of \<open>n\<close> failed attempts under \<open>retry\<close>, from the \<open>k\<close>-th call on: what each
  attempt did, and the sleep after it. For the polls of a port: \<open>n\<close> times a probe and
  a sleep.
\<close>

definition attempts ::
  "(nat \<Rightarrow> (error + 'a) \<times> action list) \<Rightarrow> rat \<Rightarrow> nat \<Rightarrow> nat \<Rightarrow> action list" where
  "attempts f sl k n = concat (map (\<lambda>j. snd (f j) @ [Sleep sl]) [k..<k + n])"

definition polls :: "int \<Rightarrow> rat \<Rightarrow> nat \<Rightarrow> action list" where
  "polls p sl n = concat (replicate n [ProbePort p, Sleep sl])"

definition count_action :: "action \<Rightarrow> action list \<Rightarrow> nat" where
  "count_action a tr = length (filter (\<lambda>x. x = a) tr)"

subsection \<open>Concrete inputs\<close>

text \<open>
  A configuration of an arm64 host with a data directory, the \<^verbatim>\<open>DYNAMODB_SHARE_DB\<close>
  variable set and the default port 0; the singleton built from it; the same server with
  a running thread; and a server built with an empty data path and no data directory.
\<close>

definition sample_config :: config where
  "sample_config =
    \<lparr> dirs_data = Some ''/var/lib/localstack/data'',
      dirs_tmp = Some ''/tmp/localstack'',
      is_persistence_enabled = False,
      SNAPSHOT_SAVE_STRATEGY = ''SCHEDULED'',
      is_env_true = (\<lambda>name. name = ''DYNAMODB_SHARE_DB''),
      getenv = (\<lambda>name. None),
      DYNAMODB_HEAP_SIZE = ''256m'',
      DYNAMODB_LOCAL_PORT = 0,
      get_free_tcp_port = 45231,
      abspath = (\<lambda>p. if take 1 p = ''/'' then p else ''/opt/code/localstack/'' @ p),
      get_arch = arm64,
      get_installed_dir = Some ''/usr/lib/localstack/dynamodb-local/2'',
      get_ddb_agent_jar_path = Some ''/usr/lib/localstack/dynamodb-local/2/ddb-local-loader-0.1.jar'',
      get_java_env_vars = [(''JAVA_HOME'', ''/usr/lib/jvm/java-21'')] \<rparr>"

definition sample_server :: server where
  "sample_server = get sample_config"

definition sample_thread :: thread_handle where
  "sample_thread =
    \<lparr> auto_restart = True,
      cmd = create_shell_command sample_config sample_server,
      env_vars = AList.update ''DDB_LOCAL_TELEMETRY'' ''0'' (get_java_env_vars sample_config),
      process_pid = Some 4711 \<rparr>"

definition running_server :: server where
  "running_server = sample_server\<lparr>started := True, thread := Some sample_thread\<rparr>"

definition no_data_dir_config :: config where
  "no_data_dir_config = sample_config\<lparr>dirs_data := None, get_arch := amd64\<rparr>"

definition empty_path_server :: server where
  "empty_path_server = DynamodbServer no_data_dir_config (Some 4566) ''localhost'' (Some [])"

text \<open>
  A configuration with \<^verbatim>\<open>DYNAMODB_IN_MEMORY\<close> set next to a data directory and the
  manual snapshot strategy.
\<close>

definition in_memory_config :: config where
  "in_memory_config =
    sample_config\<lparr>is_env_true := (\<lambda>name. name = ''DYNAMODB_IN_MEMORY''),
      is_persistence_enabled := True, SNAPSHOT_SAVE_STRATEGY := ''MANUAL''\<rparr>"

text \<open>
  Outcomes of a start: the child answers its third health check; or it never answers.
  Outcomes of a stop: the port is closed at the first poll; it stays open through the
  first wait and closes at the fourth poll after the kill, with \<^verbatim>\<open>terminate\<close> failing;
  or it never closes.
\<close>

definition healthy_start :: start_outcomes where
  "healthy_start =
    \<lparr> thread_alive = True, is_up = True, mkdir_raises = False, install_raises = False,
      spawn_raises = False, child_pid = Some 4711,
      list_tables = (\<lambda>k. if k < 2 then None else Some (Some (ListOf []))) \<rparr>"

definition never_up :: start_outcomes where
  "never_up = healthy_start\<lparr>list_tables := (\<lambda>k. None)\<rparr>"

definition graceful_stop :: stop_outcomes where
  "graceful_stop =
    \<lparr> shutdown_raises = False, join_raises = False, port_open_1 = (\<lambda>k. False),
      ps_raises = False, process_missing = False, terminate_raises = False,
      kill_raises = False, port_open_2 = (\<lambda>k. False) \<rparr>"

definition stubborn_stop :: stop_outcomes where
  "stubborn_stop =
    graceful_stop\<lparr>port_open_1 := (\<lambda>k. True), terminate_raises := True, port_open_2 := (\<lambda>k. k < 3)\<rparr>"

definition stuck_stop :: stop_outcomes where
  "stuck_stop = graceful_stop\<lparr>port_open_1 := (\<lambda>k. True), port_open_2 := (\<lambda>k. True)\<rparr>"

section \<open>Properties\<close>

subsection \<open>Facts about the rendering of values\<close>

lemma digit_in: "digit d \<in> set ''0123456789''"
  unfolding digit_def by (rule nth_mem) simp

lemma str_nat_digits: "set (str_nat n) \<subseteq> set ''0123456789''"
proof (induction n rule: str_nat.induct)
  case (1 n)
  show ?case
  proof (cases "n < 10")
    case True
    then show ?thesis using digit_in [of n] by (subst str_nat.simps) simp
  next
    case False
    with "1.IH" have "set (str_nat (n div 10)) \<subseteq> set ''0123456789''" by simp
    with False show ?thesis using digit_in [of "n mod 10"] by (subst str_nat.simps) simp
  qed
qed

lemma str_chars: "set (str i) \<subseteq> set ''-0123456789''"
proof (cases "i < 0")
  case True
  then show ?thesis using str_nat_digits [of "nat (- i)"] by (simp add: str_def subset_insertI2)
next
  case False
  then show ?thesis using str_nat_digits [of "nat i"] by (simp add: str_def subset_insertI2)
qed

lemma str_differs: "x \<in> set f \<Longrightarrow> x \<notin> set ''-0123456789'' \<Longrightarrow> str i \<noteq> f"
  using str_chars [of i] by blast

lemma str_not_option:
  "str i \<noteq> ''-inMemory''"
  "str i \<noteq> ''-delayTransientStatuses''"
  "str i \<noteq> ''-optimizeDbBeforeStartup''"
  "str i \<noteq> ''-sharedDb''"
  "str i \<noteq> ''-XX:UseSVE=0''"
  "str i \<noteq> ''-dbPath''"
  by (rule str_differs [where x = "CHR ''e''"], simp, simp)+
    (rule str_differs [where x = "CHR ''a''"], simp, simp)

lemma jar_path_last: "last (jar_path c) = CHR ''r''"
  by (simp add: jar_path_def)

lemma jar_path_differs: "last f \<noteq> CHR ''r'' \<Longrightarrow> jar_path c \<noteq> f"
  using jar_path_last [of c] by auto

lemma jar_path_not_option:
  "jar_path c \<noteq> ''-inMemory''"
  "jar_path c \<noteq> ''-dbPath''"
  "jar_path c \<noteq> ''-delayTransientStatuses''"
  "jar_path c \<noteq> ''-optimizeDbBeforeStartup''"
  "jar_path c \<noteq> ''-sharedDb''"
  "jar_path c \<noteq> ''-XX:UseSVE=0''"
  by (rule jar_path_differs; simp)+

lemmas not_option = str_not_option jar_path_not_option
  str_not_option [symmetric] jar_path_not_option [symmetric]

lemma fmt_plain:
  assumes "plain_db_path s" "truthy (db_path s)"
  shows "fmt (db_path s) \<noteq> CHR ''-'' # r"
  using assms
  by (auto simp: plain_db_path_def truthy_def fmt_def option_like_def
      split: option.splits list.splits)

subsection \<open>The elements of the command line\<close>

lemma in_java_command:
  "x \<in> set (java_command c s) \<longleftrightarrow>
    x = ''java'' \<or> (get_arch c = arm64 \<and> x = ''-XX:UseSVE=0'') \<or> x = ''-Xmx'' @ heap_size s
    \<or> x = ''-javaagent:'' @ fmt (get_ddb_agent_jar_path c)
    \<or> x = ''-Djava.library.path='' @ library_path c \<or> x = ''-jar'' \<or> x = jar_path c"
  unfolding java_command_def get_java_vm_options_def
  by (cases "get_arch c") simp_all

lemma in_parameters:
  "x \<in> set (parameters s) \<longleftrightarrow>
    x = ''-port'' \<or> x = str (port s) \<or> (db_path s = None \<and> x = ''-inMemory'')
    \<or> (truthy (db_path s) \<and> (x = ''-dbPath'' \<or> x = fmt (db_path s)))
    \<or> (delay_transient_statuses s \<and> x = ''-delayTransientStatuses'')
    \<or> (optimize_db_before_startup s \<and> x = ''-optimizeDbBeforeStartup'')
    \<or> (share_db s \<and> x = ''-sharedDb'')"
proof -
  have one: "\<And>b a. (x \<in> set (if b then [a] else [])) = (b \<and> x = a)" by auto
  have two: "\<And>b a a'. (x \<in> set (if b then [a, a'] else [])) = (b \<and> (x = a \<or> x = a'))" by auto
  show ?thesis
    unfolding parameters_def in_memory_def set_append Un_iff one two by simp
qed

lemma java_flag_iff: "''-XX:UseSVE=0'' \<in> set (java_command c s) \<longleftrightarrow> get_arch c = arm64"
  by (simp add: in_java_command not_option)

lemma java_no_param:
  "''-inMemory'' \<notin> set (java_command c s)"
  "''-dbPath'' \<notin> set (java_command c s)"
  "''-delayTransientStatuses'' \<notin> set (java_command c s)"
  "''-optimizeDbBeforeStartup'' \<notin> set (java_command c s)"
  "''-sharedDb'' \<notin> set (java_command c s)"
  by (simp_all add: in_java_command not_option)

lemma param_flags:
  assumes "plain_db_path s"
  shows "''-delayTransientStatuses'' \<in> set (parameters s) \<longleftrightarrow> delay_transient_statuses s"
    and "''-optimizeDbBeforeStartup'' \<in> set (parameters s) \<longleftrightarrow> optimize_db_before_startup s"
    and "''-sharedDb'' \<in> set (parameters s) \<longleftrightarrow> share_db s"
    and "''-inMemory'' \<in> set (parameters s) \<longleftrightarrow> db_path s = None"
    and "''-dbPath'' \<in> set (parameters s) \<longleftrightarrow> truthy (db_path s)"
    and "''-XX:UseSVE=0'' \<notin> set (parameters s)"
  using fmt_plain [OF assms, symmetric]
  by (simp_all add: in_parameters not_option cong: conj_cong)

lemma plain_update [simp]:
  "plain_db_path (s\<lparr>delay_transient_statuses := d\<rparr>) = plain_db_path s"
  "plain_db_path (s\<lparr>optimize_db_before_startup := z\<rparr>) = plain_db_path s"
  "plain_db_path (s\<lparr>share_db := h\<rparr>) = plain_db_path s"
  by (simp_all add: plain_db_path_def)

text \<open>Neighbouring elements of a list that is put together from two.\<close>

lemma adjacent_Cons:
  "adjacent a b (x # xs) \<longleftrightarrow> (xs \<noteq> [] \<and> x = a \<and> hd xs = b) \<or> adjacent a b xs"
  by (cases xs) auto

lemma adjacent_append:
  "adjacent a b (xs @ ys) \<longleftrightarrow>
    adjacent a b xs \<or> adjacent a b ys \<or> (xs \<noteq> [] \<and> ys \<noteq> [] \<and> last xs = a \<and> hd ys = b)"
proof (induction xs)
  case Nil
  show ?case by simp
next
  case (Cons x xs)
  show ?case
  proof (cases xs)
    case Nil
    then show ?thesis by (cases ys) (auto simp: adjacent_Cons)
  next
    case (Cons x' xs')
    with Cons.IH show ?thesis by (auto simp: adjacent_Cons)
  qed
qed

lemma adjacent_in_set: "adjacent a b xs \<Longrightarrow> a \<in> set xs"
  by (induction a b xs rule: adjacent.induct) auto

lemma last_java_command: "java_command c s \<noteq> [] \<and> last (java_command c s) = jar_path c"
  by (simp add: java_command_def)

lemma adjacent_command:
  "a \<notin> set (java_command c s) \<Longrightarrow>
    adjacent a b (create_shell_command c s) \<longleftrightarrow> adjacent a b (parameters s)"
  using adjacent_in_set [of a b "java_command c s"] last_java_command [of c s]
  unfolding create_shell_command_def adjacent_append
  by (metis last_in_set)

lemma port_flag: "adjacent ''-port'' (str (port s)) (create_shell_command c s)"
  by (simp add: create_shell_command_def adjacent_append parameters_def)

lemma db_path_pair:
  assumes "plain_db_path s" and "db_path s \<noteq> Some []"
  shows "adjacent ''-dbPath'' x (parameters s) \<longleftrightarrow> db_path s = Some x"
proof (cases "db_path s")
  case None
  then show ?thesis
    by (simp add: parameters_def in_memory_def truthy_def not_option)
next
  case (Some p)
  with assms have p: "p \<noteq> []" "p \<noteq> ''-dbPath''"
    by (auto simp: plain_db_path_def option_like_def)
  have "adjacent ''-dbPath'' x ([''-port'', str (port s), ''-dbPath'', p] @ fs) \<longleftrightarrow> p = x" 
    if "''-dbPath'' \<notin> set fs" for fs
    using that p adjacent_in_set [of "''-dbPath''" x fs]
    by (cases fs) (auto simp: not_option)
  moreover have "''-dbPath'' \<notin> set ((if delay_transient_statuses s then [''-delayTransientStatuses''] else []) @
    (if optimize_db_before_startup s then [''-optimizeDbBeforeStartup''] else []) @
    (if share_db s then [''-sharedDb''] else []))"
    by simp
  ultimately show ?thesis
    using Some p by (simp add: parameters_def in_memory_def truthy_def fmt_def)
qed

lemma constructed_plain:
  assumes "\<And>p. \<not> option_like (abspath c p)"
  shows "plain_db_path (DynamodbServer c p h d)"
  using assms
  by (auto simp: plain_db_path_def DynamodbServer_def init_db_path_def Let_def truthy_def
      option_like_def split: option.splits if_splits)

subsection \<open>The constructor\<close>

text \<open>
  Claim C8. When \<^verbatim>\<open>DYNAMODB_IN_MEMORY\<close> is true, the data path of the constructed server
  is \<^verbatim>\<open>None\<close>, whatever the \<^verbatim>\<open>db_path\<close> argument, the configured data directory and
  the manual snapshot strategy say; and for every constructed server \<^verbatim>\<open>in_memory\<close>
  holds exactly when the data path is \<^verbatim>\<open>None\<close>.
\<close>

theorem in_memory_takes_precedence:
  "(is_env_true c ''DYNAMODB_IN_MEMORY'' \<longrightarrow>
      db_path (DynamodbServer c p h d) = None \<and> in_memory (DynamodbServer c p h d))
   \<and> (in_memory (DynamodbServer c p h d) \<longleftrightarrow> db_path (DynamodbServer c p h d) = None)"
  by (simp add: DynamodbServer_def init_db_path_def in_memory_def truthy_def Let_def)

theorem in_memory_takes_precedence_witness:
  "is_env_true in_memory_config ''DYNAMODB_IN_MEMORY''
   \<and> dirs_data in_memory_config = Some ''/var/lib/localstack/data''
   \<and> is_persistence_enabled in_memory_config
   \<and> SNAPSHOT_SAVE_STRATEGY in_memory_config = ''MANUAL''
   \<and> db_path (DynamodbServer in_memory_config (Some 4566) ''localhost'' (Some ''/data/ddb'')) = None
   \<and> in_memory (DynamodbServer in_memory_config (Some 4566) ''localhost'' (Some ''/data/ddb''))"
  using in_memory_takes_precedence
    [of in_memory_config "Some 4566" "''localhost''" "Some ''/data/ddb''"]
  by (simp add: in_memory_config_def sample_config_def)

text \<open>
  Claim C10. A server constructed with the port omitted, \<^verbatim>\<open>None\<close> or 0 gets the port
  that \<^verbatim>\<open>get_free_tcp_port()\<close> returns; any other port argument is kept. So the
  argument 0 is never the server's port: the port is 0 only if the allocator itself
  returned 0.
\<close>

theorem falsy_port_is_allocated:
  "port (DynamodbServer c None h d) = get_free_tcp_port c
   \<and> port (DynamodbServer c (Some 0) h d) = get_free_tcp_port c
   \<and> (i \<noteq> 0 \<longrightarrow> port (DynamodbServer c (Some i) h d) = i)
   \<and> (get_free_tcp_port c \<noteq> 0 \<longrightarrow> port (DynamodbServer c p h d) \<noteq> 0)"
  by (cases p) (simp_all add: DynamodbServer_def init_port_def truthy_int_def)

theorem falsy_port_is_allocated_witness:
  "port (DynamodbServer sample_config None ''localhost'' None) = 45231
   \<and> port (DynamodbServer sample_config (Some 0) ''localhost'' None) = 45231
   \<and> port (DynamodbServer sample_config (Some 4566) ''localhost'' None) = 4566
   \<and> port (get sample_config) \<noteq> 0"
  using falsy_port_is_allocated [of sample_config "''localhost''" None 4566 "Some 0"]
  by (simp add: sample_config_def get_def)

subsection \<open>The command line of a server\<close>

text \<open>
  Claim C3, as the code has it. For every server whose data path is \<^verbatim>\<open>None\<close> or a
  non-empty plain string: the command line contains \<^verbatim>\<open>-inMemory\<close> exactly when the data
  path is \<^verbatim>\<open>None\<close>, it contains \<^verbatim>\<open>-dbPath\<close> followed by \<open>x\<close> exactly when the data path
  is \<open>x\<close>, and the two options never occur together.
\<close>

theorem in_memory_or_db_path:
  assumes "plain_db_path s" and "db_path s \<noteq> Some []"
  shows "(''-inMemory'' \<in> set (create_shell_command c s) \<longleftrightarrow> db_path s = None)
    \<and> (adjacent ''-dbPath'' x (create_shell_command c s) \<longleftrightarrow> db_path s = Some x)
    \<and> (''-dbPath'' \<in> set (create_shell_command c s) \<longleftrightarrow> db_path s \<noteq> None)
    \<and> \<not> (''-inMemory'' \<in> set (create_shell_command c s)
          \<and> ''-dbPath'' \<in> set (create_shell_command c s))"
proof -
  have truthy: "truthy (db_path s) \<longleftrightarrow> db_path s \<noteq> None"
    using assms(2) by (cases "db_path s") (simp_all add: truthy_def)
  have mem: "''-inMemory'' \<in> set (create_shell_command c s) \<longleftrightarrow> db_path s = None"
    by (simp add: create_shell_command_def java_no_param param_flags [OF assms(1)])
  have dbp: "''-dbPath'' \<in> set (create_shell_command c s) \<longleftrightarrow> db_path s \<noteq> None"
    by (simp add: create_shell_command_def java_no_param param_flags [OF assms(1)] truthy)
  have pair: "adjacent ''-dbPath'' x (create_shell_command c s) \<longleftrightarrow> db_path s = Some x"
    by (simp add: adjacent_command java_no_param db_path_pair [OF assms])
  from mem dbp pair show ?thesis by blast
qed

theorem in_memory_or_db_path_witness:
  "''-inMemory'' \<notin> set (create_shell_command sample_config sample_server)
   \<and> adjacent ''-dbPath'' ''/var/lib/localstack/data/dynamodb''
        (create_shell_command sample_config sample_server)
   \<and> ''-inMemory'' \<in> set (create_shell_command in_memory_config
        (DynamodbServer in_memory_config None ''localhost'' None))
   \<and> ''-dbPath'' \<notin> set (create_shell_command in_memory_config
        (DynamodbServer in_memory_config None ''localhost'' None))"
proof -
  have a: "db_path sample_server = Some ''/var/lib/localstack/data/dynamodb''"
    by (simp add: sample_server_def get_def DynamodbServer_def init_db_path_def truthy_def
        fmt_def sample_config_def)
  have b: "db_path (DynamodbServer in_memory_config None ''localhost'' None) = None"
    by (simp add: DynamodbServer_def init_db_path_def truthy_def in_memory_config_def
        sample_config_def)
  from a have pa: "plain_db_path sample_server" "db_path sample_server \<noteq> Some []"
    by (simp_all add: plain_db_path_def option_like_def)
  from b have pb: "plain_db_path (DynamodbServer in_memory_config None ''localhost'' None)"
      "db_path (DynamodbServer in_memory_config None ''localhost'' None) \<noteq> Some []"
    by (simp_all add: plain_db_path_def)
  show ?thesis
    using in_memory_or_db_path [OF pa, of sample_config "''/var/lib/localstack/data/dynamodb''"]
      in_memory_or_db_path [OF pb, of in_memory_config "[]"] a b
    by simp
qed

text \<open>
  The claim as the spec states it fails for a server constructed with the empty string
  as data path and no data directory configured: its data path is set, to the empty
  string, and its command line holds neither \<^verbatim>\<open>-dbPath\<close> nor \<^verbatim>\<open>-inMemory\<close>.
\<close>

theorem empty_db_path_counterexample:
  "db_path empty_path_server = Some []
   \<and> \<not> in_memory empty_path_server
   \<and> \<not> adjacent ''-dbPath'' [] (create_shell_command no_data_dir_config empty_path_server)
   \<and> ''-dbPath'' \<notin> set (create_shell_command no_data_dir_config empty_path_server)
   \<and> ''-inMemory'' \<notin> set (create_shell_command no_data_dir_config empty_path_server)"
proof -
  have path: "db_path empty_path_server = Some []"
    by (simp add: empty_path_server_def DynamodbServer_def init_db_path_def truthy_def
        no_data_dir_config_def sample_config_def)
  then have plain: "plain_db_path empty_path_server"
    by (simp add: plain_db_path_def option_like_def)
  have no_dbp: "''-dbPath'' \<notin> set (create_shell_command no_data_dir_config empty_path_server)"
    using path
    by (simp add: create_shell_command_def java_no_param param_flags [OF plain] truthy_def)
  have no_mem: "''-inMemory'' \<notin> set (create_shell_command no_data_dir_config empty_path_server)"
    using path by (simp add: create_shell_command_def java_no_param param_flags [OF plain])
  from no_dbp have "\<not> adjacent ''-dbPath'' [] (create_shell_command no_data_dir_config empty_path_server)"
    using adjacent_in_set by fastforce
  with path no_dbp no_mem show ?thesis by (simp add: in_memory_def)
qed

text \<open>
  Claim C4. For every server with a plain data path, each of the options
  \<^verbatim>\<open>-delayTransientStatuses\<close>, \<^verbatim>\<open>-optimizeDbBeforeStartup\<close> and \<^verbatim>\<open>-sharedDb\<close> is on the
  command line exactly when its field is true; setting the other two fields to any
  values does not change that.
\<close>

theorem boolean_flags_iff:
  assumes "plain_db_path s"
  shows "(''-delayTransientStatuses'' \<in> set (create_shell_command c s) \<longleftrightarrow> delay_transient_statuses s)
    \<and> (''-optimizeDbBeforeStartup'' \<in> set (create_shell_command c s) \<longleftrightarrow> optimize_db_before_startup s)
    \<and> (''-sharedDb'' \<in> set (create_shell_command c s) \<longleftrightarrow> share_db s)
    \<and> (''-delayTransientStatuses'' \<in> set (create_shell_command c
          (s\<lparr>optimize_db_before_startup := z, share_db := h\<rparr>)) \<longleftrightarrow> delay_transient_statuses s)
    \<and> (''-optimizeDbBeforeStartup'' \<in> set (create_shell_command c
          (s\<lparr>delay_transient_statuses := d, share_db := h\<rparr>)) \<longleftrightarrow> optimize_db_before_startup s)
    \<and> (''-sharedDb'' \<in> set (create_shell_command c
          (s\<lparr>delay_transient_statuses := d, optimize_db_before_startup := z\<rparr>)) \<longleftrightarrow> share_db s)"
proof -
  have flags: "(''-delayTransientStatuses'' \<in> set (create_shell_command c t) \<longleftrightarrow> delay_transient_statuses t)
    \<and> (''-optimizeDbBeforeStartup'' \<in> set (create_shell_command c t) \<longleftrightarrow> optimize_db_before_startup t)
    \<and> (''-sharedDb'' \<in> set (create_shell_command c t) \<longleftrightarrow> share_db t)"
    if "plain_db_path t" for t
    by (simp add: create_shell_command_def java_no_param param_flags [OF that])
  have p1: "plain_db_path (s\<lparr>optimize_db_before_startup := z, share_db := h\<rparr>)"
    and p2: "plain_db_path (s\<lparr>delay_transient_statuses := d, share_db := h\<rparr>)"
    and p3: "plain_db_path (s\<lparr>delay_transient_statuses := d, optimize_db_before_startup := z\<rparr>)"
    using assms by simp_all
  show ?thesis
    using flags [OF assms] flags [OF p1] flags [OF p2] flags [OF p3] by simp
qed

theorem boolean_flags_iff_witness:
  "''-sharedDb'' \<in> set (create_shell_command sample_config sample_server)
   \<and> ''-delayTransientStatuses'' \<notin> set (create_shell_command sample_config sample_server)
   \<and> ''-optimizeDbBeforeStartup'' \<notin> set (create_shell_command sample_config sample_server)
   \<and> ''-sharedDb'' \<in> set (create_shell_command sample_config
        (sample_server\<lparr>delay_transient_statuses := True, optimize_db_before_startup := True\<rparr>))"
proof -
  have plain: "plain_db_path sample_server"
    by (simp add: plain_db_path_def option_like_def sample_server_def get_def DynamodbServer_def
        init_db_path_def truthy_def fmt_def sample_config_def)
  have fields: "share_db sample_server" "\<not> delay_transient_statuses sample_server"
      "\<not> optimize_db_before_startup sample_server"
    by (simp_all add: sample_server_def get_def DynamodbServer_def sample_config_def)
  show ?thesis
    using boolean_flags_iff [OF plain, of sample_config True True True] fields by simp
qed

text \<open>
  Claim C9. For every server with a plain data path, the command line contains the option
  \<^verbatim>\<open>-XX:UseSVE=0\<close> exactly when the architecture is arm64, the one entry of the lookup by
  architecture; and \<^verbatim>\<open>-port\<close> followed by the port is on every command line.
\<close>

theorem vm_workaround_and_port:
  assumes "plain_db_path s"
  shows "(''-XX:UseSVE=0'' \<in> set (create_shell_command c s) \<longleftrightarrow> get_arch c = arm64)
    \<and> adjacent ''-port'' (str (port s)) (create_shell_command c s)"
  by (simp add: create_shell_command_def java_flag_iff param_flags [OF assms]
      port_flag [unfolded create_shell_command_def])

theorem vm_workaround_and_port_witness:
  "''-XX:UseSVE=0'' \<in> set (create_shell_command sample_config sample_server)
   \<and> ''-XX:UseSVE=0'' \<notin> set (create_shell_command no_data_dir_config sample_server)
   \<and> adjacent ''-port'' (str 45231) (create_shell_command sample_config sample_server)"
proof -
  have plain: "plain_db_path sample_server"
    by (simp add: plain_db_path_def option_like_def sample_server_def get_def DynamodbServer_def
        init_db_path_def truthy_def fmt_def sample_config_def)
  have p: "port sample_server = 45231"
    by (simp add: sample_server_def get_def DynamodbServer_def init_port_def truthy_int_def
        sample_config_def)
  show ?thesis
    using vm_workaround_and_port [OF plain, of sample_config]
      vm_workaround_and_port [OF plain, of no_data_dir_config] p
    by (simp add: sample_config_def no_data_dir_config_def)
qed

subsection \<open>The retry loop\<close>

lemma attempts_0 [simp]: "attempts f sl k 0 = []"
  by (simp add: attempts_def)

lemma attempts_Suc: "attempts f sl k (Suc n) = snd (f k) @ Sleep sl # attempts f sl (Suc k) n"
proof -
  have "[k..<k + Suc n] = k # [Suc k..<Suc k + n]"
    by (subst upt_rec) simp
  then show ?thesis by (simp add: attempts_def)
qed

lemma not_isl_obtain:
  assumes "\<not> isl (fst p)"
  obtains v tr where "p = (Inr v, tr)"
  using assms by (cases p, cases "fst p") auto

lemma isl_obtain:
  assumes "isl (fst p)"
  obtains e tr where "p = (Inl e, tr)"
  using assms by (cases p, cases "fst p") auto

text \<open>When every attempt fails, the last error is raised after \<open>n\<close> attempts and sleeps.\<close>

lemma retry_loop_exhausted:
  "(\<forall>j<n. isl (fst (f (k + j)))) \<Longrightarrow>
    retry_loop f sl n k e =
      (Inl (if n = 0 then e else projl (fst (f (k + n - 1)))), attempts f sl k n)"
proof (induction n arbitrary: k e)
  case 0
  show ?case by simp
next
  case (Suc n)
  from Suc.prems have here: "isl (fst (f k))" by force
  then obtain e' tr where fk: "f k = (Inl e', tr)"
    by (auto elim: isl_obtain)
  have rest: "\<forall>j<n. isl (fst (f (Suc k + j)))"
    using Suc.prems by (metis Suc_less_eq add_Suc_right add_Suc)
  have IH: "retry_loop f sl n (Suc k) e' =
      (Inl (if n = 0 then e' else projl (fst (f (Suc k + n - 1)))), attempts f sl (Suc k) n)"
    by (rule Suc.IH [OF rest])
  show ?case
  proof (cases n)
    case 0
    with fk IH show ?thesis by (simp add: attempts_Suc)
  next
    case (Suc m)
    with fk IH show ?thesis by (simp add: attempts_Suc)
  qed
qed

text \<open>The first attempt that succeeds ends the loop with its result.\<close>

lemma retry_loop_success:
  "m < n \<Longrightarrow> (\<forall>j<m. isl (fst (f (k + j)))) \<Longrightarrow> \<not> isl (fst (f (k + m))) \<Longrightarrow>
    retry_loop f sl n k e = (fst (f (k + m)), attempts f sl k m @ snd (f (k + m)))"
proof (induction n arbitrary: k m e)
  case 0
  then show ?case by simp
next
  case (Suc n)
  show ?case
  proof (cases m)
    case 0
    with Suc.prems(3) obtain v tr where "f k = (Inr v, tr)"
      by (auto elim: not_isl_obtain)
    with 0 show ?thesis by simp
  next
    case (Suc m')
    with Suc.prems(2) have "isl (fst (f k))" by force
    then obtain e' tr where fk: "f k = (Inl e', tr)"
      by (auto elim: isl_obtain)
    have lt: "m' < n" using Suc.prems(1) Suc by simp
    have rest: "\<forall>j<m'. isl (fst (f (Suc k + j)))"
      using Suc.prems(2) Suc by (metis Suc_less_eq add_Suc_right add_Suc)
    have last: "\<not> isl (fst (f (Suc k + m')))"
      using Suc.prems(3) Suc by simp
    have "retry_loop f sl n (Suc k) e' =
        (fst (f (Suc k + m')), attempts f sl (Suc k) m' @ snd (f (Suc k + m')))"
      by (rule Suc.IH [OF lt rest last])
    with fk Suc show ?thesis by (simp add: attempts_Suc)
  qed
qed

lemma retry_loop_ok_iff:
  "\<not> isl (fst (retry_loop f sl n k e)) \<longleftrightarrow> (\<exists>j<n. \<not> isl (fst (f (k + j))))"
proof (induction n arbitrary: k e)
  case 0
  show ?case by simp
next
  case (Suc n)
  show ?case
  proof (cases "isl (fst (f k))")
    case False
    then obtain v tr where "f k = (Inr v, tr)"
      by (auto elim: not_isl_obtain)
    moreover have "\<exists>j<Suc n. \<not> isl (fst (f (k + j)))"
      using False by (intro exI [of _ 0]) simp
    ultimately show ?thesis by simp
  next
    case True
    then obtain e' tr where fk: "f k = (Inl e', tr)"
      by (auto elim: isl_obtain)
    have "(\<exists>j<Suc n. \<not> isl (fst (f (k + j)))) \<longleftrightarrow> (\<exists>j<n. \<not> isl (fst (f (Suc k + j))))"
    proof
      assume "\<exists>j<Suc n. \<not> isl (fst (f (k + j)))"
      then obtain j where j: "j < Suc n" "\<not> isl (fst (f (k + j)))" by blast
      with True obtain j' where "j = Suc j'" by (cases j) auto
      with j show "\<exists>j<n. \<not> isl (fst (f (Suc k + j)))" by auto
    next
      assume "\<exists>j<n. \<not> isl (fst (f (Suc k + j)))"
      then obtain j where "j < n" "\<not> isl (fst (f (Suc k + j)))" by blast
      then show "\<exists>j<Suc n. \<not> isl (fst (f (k + j)))"
        by (intro exI [of _ "Suc j"]) simp
    qed
    with fk Suc.IH [of "Suc k" e'] show ?thesis
      by (cases "retry_loop f sl n (Suc k) e'") simp
  qed
qed

text \<open>What no attempt does, the loop does not do; and it makes at most \<open>n\<close> attempts.\<close>

lemma retry_loop_filter:
  "(\<And>j. filter P (snd (f j)) = []) \<Longrightarrow> \<not> P (Sleep sl) \<Longrightarrow>
    filter P (snd (retry_loop f sl n k e)) = []"
proof (induction n arbitrary: k e)
  case 0
  show ?case by simp
next
  case (Suc n)
  obtain r tr where fk: "f k = (r, tr)" by (cases "f k")
  with Suc.prems(1) [of k] have tr: "filter P tr = []" by simp
  show ?case
  proof (cases r)
    case (Inr v)
    with fk tr show ?thesis by simp
  next
    case (Inl e')
    obtain r' tr' where rec: "retry_loop f sl n (Suc k) e' = (r', tr')"
      by (cases "retry_loop f sl n (Suc k) e'")
    with Suc.IH [OF Suc.prems, of "Suc k" e'] have "filter P tr' = []" by simp
    with fk Inl rec tr Suc.prems(2) show ?thesis by simp
  qed
qed

lemma retry_loop_count:
  "(\<And>j. count_action a (snd (f j)) \<le> 1) \<Longrightarrow> a \<noteq> Sleep sl \<Longrightarrow>
    count_action a (snd (retry_loop f sl n k e)) \<le> n"
proof (induction n arbitrary: k e)
  case 0
  show ?case by (simp add: count_action_def)
next
  case (Suc n)
  obtain r tr where fk: "f k = (r, tr)" by (cases "f k")
  with Suc.prems(1) [of k] have tr: "count_action a tr \<le> 1" by simp
  show ?case
  proof (cases r)
    case (Inr v)
    with fk tr show ?thesis by simp
  next
    case (Inl e')
    obtain r' tr' where rec: "retry_loop f sl n (Suc k) e' = (r', tr')"
      by (cases "retry_loop f sl n (Suc k) e'")
    with Suc.IH [OF Suc.prems, of "Suc k" e'] have "count_action a tr' \<le> n" by simp
    with fk Inl rec tr Suc.prems(2) show ?thesis by (simp add: count_action_def)
  qed
qed

lemma attempts_count:
  "(\<And>j. count_action a (snd (f j)) = c) \<Longrightarrow>
    count_action a (attempts f sl k n) = n * (c + (if a = Sleep sl then 1 else 0))"
proof (induction n arbitrary: k)
  case 0
  show ?case by (simp add: count_action_def)
next
  case (Suc n)
  from Suc.IH [OF Suc.prems, of "Suc k"] Suc.prems [of k] show ?case
    by (cases "a = Sleep sl") (simp_all add: attempts_Suc count_action_def)
qed

subsection \<open>Waiting for the port\<close>

lemma attempts_polls:
  "attempts (\<lambda>j. (if still_open j then Inl PortNotClosed else Inr (), [ProbePort p])) sl k n
    = polls p sl n"
  by (simp add: attempts_def polls_def map_replicate_const)

lemma wait_all_open:
  assumes "0 < n" and "\<forall>j<n. still_open j"
  shows "wait_for_port_closed p sl n still_open = (Inl PortNotClosed, polls p sl n)"
proof -
  let ?f = "\<lambda>j. (if still_open j then Inl PortNotClosed else Inr (), [ProbePort p])"
  from assms(2) have "\<forall>j<n. isl (fst (?f (0 + j)))" by simp
  from retry_loop_exhausted [OF this, of sl TypeError] assms show ?thesis
    by (simp add: wait_for_port_closed_def retry_def attempts_polls)
qed

lemma wait_first_closed:
  assumes "m < n" and "\<forall>j<m. still_open j" and "\<not> still_open m"
  shows "wait_for_port_closed p sl n still_open = (Inr (), polls p sl m @ [ProbePort p])"
proof -
  let ?f = "\<lambda>j. (if still_open j then Inl PortNotClosed else Inr (), [ProbePort p])"
  from assms(2) have fails: "\<forall>j<m. isl (fst (?f (0 + j)))" by simp
  from assms(3) have ok: "\<not> isl (fst (?f (0 + m)))" by simp
  from retry_loop_success [OF assms(1) fails ok, of sl TypeError] assms(3) show ?thesis
    by (simp add: wait_for_port_closed_def retry_def attempts_polls)
qed

lemma wait_ok_iff:
  "\<not> isl (fst (wait_for_port_closed p sl n still_open)) \<longleftrightarrow> (\<exists>j<n. \<not> still_open j)"
  unfolding wait_for_port_closed_def retry_def retry_loop_ok_iff by auto

lemma polls_no_forced_kill: "filter is_forced_kill (polls p sl n) = []"
  by (induction n) (simp_all add: polls_def)

subsection \<open>Stopping\<close>

text \<open>
  Claim C6. Without a thread handle, \<^verbatim>\<open>stop_dynamodb\<close> returns at once: it raises
  nothing, leaves the server as it is and performs no action, whatever the world would
  have answered.
\<close>

theorem stop_without_handle:
  "thread s = None \<Longrightarrow> stop_dynamodb oc s = (Inr (), s, [])"
  by (simp add: stop_dynamodb_def)

theorem stop_without_handle_witness:
  "thread sample_server = None
   \<and> stop_dynamodb stuck_stop sample_server = (Inr (), sample_server, [])"
proof -
  have none: "thread sample_server = None"
    by (simp add: sample_server_def get_def DynamodbServer_def)
  from none stop_without_handle [OF none, of stuck_stop] show ?thesis by simp
qed

text \<open>The body of \<^verbatim>\<open>stop_dynamodb\<close> once shutdown and join have returned.\<close>

lemma stop_after_join:
  assumes "thread s = Some t" and "\<not> shutdown_raises oc" and "\<not> join_raises oc"
  shows "stop_dynamodb oc s =
    (case wait_for_port_closed (port s) (4 / 5) 10 (port_open_1 oc) of
      (Inr u, tr4) \<Rightarrow>
        (Inr (), s\<lparr>thread := Some (t\<lparr>auto_restart := False\<rparr>), stopped := True\<rparr>,
         [SetAutoRestart False, Shutdown, Join 10] @ tr4)
    | (Inl e, tr4) \<Rightarrow>
        (case kill_manually oc (s\<lparr>thread := Some (t\<lparr>auto_restart := False\<rparr>), stopped := True\<rparr>)
                (t\<lparr>auto_restart := False\<rparr>) of
          (r, tr5) \<Rightarrow>
            (r, s\<lparr>thread := Some (t\<lparr>auto_restart := False\<rparr>), stopped := True\<rparr>,
             [SetAutoRestart False, Shutdown, Join 10] @ tr4 @ tr5)))"
  using assms
  by (simp add: stop_dynamodb_def shutdown_def join_def Let_def split: prod.splits sum.splits)

lemma kill_manually_found:
  assumes "\<not> ps_raises oc" and "process_pid t = Some pid" and "\<not> process_missing oc"
  shows "kill_manually oc s t =
    (fst (wait_for_port_closed (port s) (1 / 2) 8 (port_open_2 oc)),
     [RunPs, LogWarning, LogInfo, LookupProcess pid]
       @ run_safe (terminate_raises oc) (Terminate pid)
       @ run_safe (kill_raises oc) (Kill pid)
       @ snd (wait_for_port_closed (port s) (1 / 2) 8 (port_open_2 oc)))"
  using assms by (simp add: kill_manually_def case_prod_beta)

lemma kill_manually_ok_iff:
  "\<not> isl (fst (kill_manually oc s t)) \<longleftrightarrow>
    \<not> ps_raises oc \<and> process_pid t \<noteq> None \<and> \<not> process_missing oc
    \<and> (\<exists>k<8. \<not> port_open_2 oc k)"
  by (cases "process_pid t")
    (simp_all add: kill_manually_def case_prod_beta wait_ok_iff)

text \<open>
  Claim C5. With a thread handle, and shutdown and join returning, \<^verbatim>\<open>stop_dynamodb\<close>
  does exactly this, in this order: it switches auto-restart off, sends the shutdown,
  joins for 10 seconds and polls the port up to 10 times, 0.8 seconds apart. If a poll
  sees the port closed it returns, and nothing of the forced kill has happened. If the
  port is open at all 10 polls, it lists the processes, reads the child's process id,
  looks the process up, calls terminate and then kill, both best-effort, and polls the
  port again up to 8 times, 0.5 seconds apart.
\<close>

theorem stop_sequence:
  assumes "thread s = Some t" and "\<not> shutdown_raises oc" and "\<not> join_raises oc"
  shows
    "(k < 10 \<and> (\<forall>j<k. port_open_1 oc j) \<and> \<not> port_open_1 oc k \<longrightarrow>
        stop_dynamodb oc s =
          (Inr (), s\<lparr>thread := Some (t\<lparr>auto_restart := False\<rparr>), stopped := True\<rparr>,
           [SetAutoRestart False, Shutdown, Join 10] @ polls (port s) (4 / 5) k
             @ [ProbePort (port s)])
        \<and> filter is_forced_kill (snd (snd (stop_dynamodb oc s))) = [])
     \<and> ((\<forall>j<10. port_open_1 oc j) \<and> \<not> ps_raises oc \<and> process_pid t = Some pid
          \<and> \<not> process_missing oc \<and> m < 8 \<and> (\<forall>j<m. port_open_2 oc j) \<and> \<not> port_open_2 oc m \<longrightarrow>
        stop_dynamodb oc s =
          (Inr (), s\<lparr>thread := Some (t\<lparr>auto_restart := False\<rparr>), stopped := True\<rparr>,
           [SetAutoRestart False, Shutdown, Join 10] @ polls (port s) (4 / 5) 10
             @ [RunPs, LogWarning, LogInfo, LookupProcess pid]
             @ run_safe (terminate_raises oc) (Terminate pid)
             @ run_safe (kill_raises oc) (Kill pid)
             @ polls (port s) (1 / 2) m @ [ProbePort (port s)]))
     \<and> ((\<forall>j<10. port_open_1 oc j) \<and> \<not> ps_raises oc \<and> process_pid t = Some pid
          \<and> \<not> process_missing oc \<and> (\<forall>j<8. port_open_2 oc j) \<longrightarrow>
        stop_dynamodb oc s =
          (Inl PortNotClosed, s\<lparr>thread := Some (t\<lparr>auto_restart := False\<rparr>), stopped := True\<rparr>,
           [SetAutoRestart False, Shutdown, Join 10] @ polls (port s) (4 / 5) 10
             @ [RunPs, LogWarning, LogInfo, LookupProcess pid]
             @ run_safe (terminate_raises oc) (Terminate pid)
             @ run_safe (kill_raises oc) (Kill pid)
             @ polls (port s) (1 / 2) 8))"
proof (intro conjI impI)
  assume "k < 10 \<and> (\<forall>j<k. port_open_1 oc j) \<and> \<not> port_open_1 oc k"
  then have "wait_for_port_closed (port s) (4 / 5) 10 (port_open_1 oc)
      = (Inr (), polls (port s) (4 / 5) k @ [ProbePort (port s)])"
    by (intro wait_first_closed) simp_all
  then show first: "stop_dynamodb oc s =
      (Inr (), s\<lparr>thread := Some (t\<lparr>auto_restart := False\<rparr>), stopped := True\<rparr>,
       [SetAutoRestart False, Shutdown, Join 10] @ polls (port s) (4 / 5) k
         @ [ProbePort (port s)])"
    by (simp add: stop_after_join [OF assms])
  show "filter is_forced_kill (snd (snd (stop_dynamodb oc s))) = []"
    by (simp add: first polls_no_forced_kill)
next
  assume a: "(\<forall>j<10. port_open_1 oc j) \<and> \<not> ps_raises oc \<and> process_pid t = Some pid
      \<and> \<not> process_missing oc \<and> m < 8 \<and> (\<forall>j<m. port_open_2 oc j) \<and> \<not> port_open_2 oc m"
  then have w1: "wait_for_port_closed (port s) (4 / 5) 10 (port_open_1 oc)
      = (Inl PortNotClosed, polls (port s) (4 / 5) 10)"
    by (intro wait_all_open) simp_all
  from a have w2: "wait_for_port_closed (port s) (1 / 2) 8 (port_open_2 oc)
      = (Inr (), polls (port s) (1 / 2) m @ [ProbePort (port s)])"
    by (intro wait_first_closed) simp_all
  from a have k: "\<not> ps_raises oc" "process_pid (t\<lparr>auto_restart := False\<rparr>) = Some pid"
      "\<not> process_missing oc"
    by simp_all
  show "stop_dynamodb oc s =
      (Inr (), s\<lparr>thread := Some (t\<lparr>auto_restart := False\<rparr>), stopped := True\<rparr>,
       [SetAutoRestart False, Shutdown, Join 10] @ polls (port s) (4 / 5) 10
         @ [RunPs, LogWarning, LogInfo, LookupProcess pid]
         @ run_safe (terminate_raises oc) (Terminate pid)
         @ run_safe (kill_raises oc) (Kill pid)
         @ polls (port s) (1 / 2) m @ [ProbePort (port s)])"
    by (simp add: stop_after_join [OF assms] w1 kill_manually_found [OF k] w2)
next
  assume a: "(\<forall>j<10. port_open_1 oc j) \<and> \<not> ps_raises oc \<and> process_pid t = Some pid
      \<and> \<not> process_missing oc \<and> (\<forall>j<8. port_open_2 oc j)"
  then have w1: "wait_for_port_closed (port s) (4 / 5) 10 (port_open_1 oc)
      = (Inl PortNotClosed, polls (port s) (4 / 5) 10)"
    by (intro wait_all_open) simp_all
  from a have w2: "wait_for_port_closed (port s) (1 / 2) 8 (port_open_2 oc)
      = (Inl PortNotClosed, polls (port s) (1 / 2) 8)"
    by (intro wait_all_open) simp_all
  from a have k: "\<not> ps_raises oc" "process_pid (t\<lparr>auto_restart := False\<rparr>) = Some pid"
      "\<not> process_missing oc"
    by simp_all
  show "stop_dynamodb oc s =
      (Inl PortNotClosed, s\<lparr>thread := Some (t\<lparr>auto_restart := False\<rparr>), stopped := True\<rparr>,
       [SetAutoRestart False, Shutdown, Join 10] @ polls (port s) (4 / 5) 10
         @ [RunPs, LogWarning, LogInfo, LookupProcess pid]
         @ run_safe (terminate_raises oc) (Terminate pid)
         @ run_safe (kill_raises oc) (Kill pid)
         @ polls (port s) (1 / 2) 8)"
    by (simp add: stop_after_join [OF assms] w1 kill_manually_found [OF k] w2)
qed

theorem stop_sequence_witness:
  "stop_dynamodb graceful_stop running_server =
      (Inr (), running_server\<lparr>thread := Some (sample_thread\<lparr>auto_restart := False\<rparr>), stopped := True\<rparr>,
       [SetAutoRestart False, Shutdown, Join 10, ProbePort (port running_server)])
   \<and> stop_dynamodb stubborn_stop running_server =
      (Inr (), running_server\<lparr>thread := Some (sample_thread\<lparr>auto_restart := False\<rparr>), stopped := True\<rparr>,
       [SetAutoRestart False, Shutdown, Join 10] @ polls (port running_server) (4 / 5) 10
         @ [RunPs, LogWarning, LogInfo, LookupProcess 4711, Terminate 4711, LogSuppressed, Kill 4711]
         @ polls (port running_server) (1 / 2) 3 @ [ProbePort (port running_server)])"
proof -
  have t: "thread running_server = Some sample_thread"
    by (simp add: running_server_def)
  have g: "\<not> shutdown_raises graceful_stop" "\<not> join_raises graceful_stop"
    by (simp_all add: graceful_stop_def)
  have b: "\<not> shutdown_raises stubborn_stop" "\<not> join_raises stubborn_stop"
    by (simp_all add: stubborn_stop_def graceful_stop_def)
  have first: "(0::nat) < 10 \<and> (\<forall>j<0. port_open_1 graceful_stop j) \<and> \<not> port_open_1 graceful_stop 0"
    by (simp add: graceful_stop_def)
  have second: "(\<forall>j<10. port_open_1 stubborn_stop j) \<and> \<not> ps_raises stubborn_stop
      \<and> process_pid sample_thread = Some 4711 \<and> \<not> process_missing stubborn_stop
      \<and> (3::nat) < 8 \<and> (\<forall>j<3. port_open_2 stubborn_stop j) \<and> \<not> port_open_2 stubborn_stop 3"
    by (simp add: stubborn_stop_def graceful_stop_def sample_thread_def)
  have raises: "terminate_raises stubborn_stop" "\<not> kill_raises stubborn_stop"
    by (simp_all add: stubborn_stop_def graceful_stop_def)
  from stop_sequence [OF t g, of 0 4711 3] first
  have one: "stop_dynamodb graceful_stop running_server =
      (Inr (), running_server\<lparr>thread := Some (sample_thread\<lparr>auto_restart := False\<rparr>), stopped := True\<rparr>,
       [SetAutoRestart False, Shutdown, Join 10, ProbePort (port running_server)])"
    by (simp add: polls_def)
  from stop_sequence [OF t b, of 0 4711 3] second raises
  have two: "stop_dynamodb stubborn_stop running_server =
      (Inr (), running_server\<lparr>thread := Some (sample_thread\<lparr>auto_restart := False\<rparr>), stopped := True\<rparr>,
       [SetAutoRestart False, Shutdown, Join 10] @ polls (port running_server) (4 / 5) 10
         @ [RunPs, LogWarning, LogInfo, LookupProcess 4711, Terminate 4711, LogSuppressed, Kill 4711]
         @ polls (port running_server) (1 / 2) 3 @ [ProbePort (port running_server)])"
    by (simp add: run_safe_def)
  from one two show ?thesis by simp
qed

text \<open>
  Claim C2, as the code has it. \<^verbatim>\<open>stop_dynamodb\<close> returns without raising exactly when
  there is no thread handle, or shutdown and join return and either a poll of the first
  wait sees the port closed, or the process listing, the process id and the process
  lookup succeed and a poll of the second wait sees the port closed. Whether
  \<^verbatim>\<open>terminate\<close> and \<^verbatim>\<open>kill\<close> fail makes no difference to the result: those two
  failures are swallowed.
\<close>

theorem stop_returns_iff:
  "(\<not> isl (fst (stop_dynamodb oc s)) \<longleftrightarrow>
      (case thread s of
        None \<Rightarrow> True
      | Some t \<Rightarrow>
          \<not> shutdown_raises oc \<and> \<not> join_raises oc
          \<and> ((\<exists>k<10. \<not> port_open_1 oc k)
             \<or> (\<not> ps_raises oc \<and> process_pid t \<noteq> None \<and> \<not> process_missing oc
                \<and> (\<exists>k<8. \<not> port_open_2 oc k)))))
   \<and> fst (stop_dynamodb (oc\<lparr>terminate_raises := a, kill_raises := b\<rparr>) s)
      = fst (stop_dynamodb oc s)"
proof
  show "\<not> isl (fst (stop_dynamodb oc s)) \<longleftrightarrow>
      (case thread s of
        None \<Rightarrow> True
      | Some t \<Rightarrow>
          \<not> shutdown_raises oc \<and> \<not> join_raises oc
          \<and> ((\<exists>k<10. \<not> port_open_1 oc k)
             \<or> (\<not> ps_raises oc \<and> process_pid t \<noteq> None \<and> \<not> process_missing oc
                \<and> (\<exists>k<8. \<not> port_open_2 oc k))))"
  proof (cases "thread s")
    case None
    then show ?thesis by (simp add: stop_dynamodb_def)
  next
    case (Some t)
    show ?thesis
    proof (cases "shutdown_raises oc \<or> join_raises oc")
      case True
      with Some show ?thesis
        by (auto simp: stop_dynamodb_def shutdown_def join_def Let_def)
    next
      case False
      then have ok: "\<not> shutdown_raises oc" "\<not> join_raises oc" by simp_all
      obtain r4 tr4 where w: "wait_for_port_closed (port s) (4 / 5) 10 (port_open_1 oc) = (r4, tr4)"
        by (cases "wait_for_port_closed (port s) (4 / 5) 10 (port_open_1 oc)")
      with wait_ok_iff [of "port s" "4 / 5" 10 "port_open_1 oc"]
      have r4: "\<not> isl r4 \<longleftrightarrow> (\<exists>k<10. \<not> port_open_1 oc k)" by simp
      have km: "\<not> isl (fst (kill_manually oc s' (t\<lparr>auto_restart := False\<rparr>))) \<longleftrightarrow>
          \<not> ps_raises oc \<and> process_pid t \<noteq> None \<and> \<not> process_missing oc
          \<and> (\<exists>k<8. \<not> port_open_2 oc k)" for s'
        by (simp add: kill_manually_ok_iff)
      show ?thesis
      proof (cases r4)
        case (Inr u)
        with r4 Some ok w show ?thesis
          by (simp add: stop_after_join [OF Some ok])
      next
        case (Inl e)
        with r4 have "\<not> (\<exists>k<10. \<not> port_open_1 oc k)" by simp
        with Inl Some ok w km show ?thesis
          by (auto simp: stop_after_join [OF Some ok] case_prod_beta)
      qed
    qed
  qed
next
  show "fst (stop_dynamodb (oc\<lparr>terminate_raises := a, kill_raises := b\<rparr>) s)
      = fst (stop_dynamodb oc s)"
    by (simp add: stop_dynamodb_def kill_manually_def shutdown_def join_def Let_def
        case_prod_beta split: option.splits sum.splits)
qed

theorem stop_returns_iff_witness:
  "terminate_raises stubborn_stop \<and> \<not> isl (fst (stop_dynamodb stubborn_stop running_server))"
proof -
  have t: "thread running_server = Some sample_thread"
    by (simp add: running_server_def)
  have "\<exists>k<8. \<not> port_open_2 stubborn_stop k"
    by (intro exI [of _ 3]) (simp add: stubborn_stop_def graceful_stop_def)
  with stop_returns_iff [of stubborn_stop running_server True True] t show ?thesis
    by (simp add: stubborn_stop_def graceful_stop_def sample_thread_def)
qed

text \<open>
  The claim as the spec states it fails when the port stays open: the exception of the
  second \<^verbatim>\<open>wait_for_port_closed\<close>, in the handler, is not caught and reaches the caller.
\<close>

theorem stop_raises_counterexample:
  "fst (stop_dynamodb stuck_stop running_server) = Inl PortNotClosed"
proof -
  have t: "thread running_server = Some sample_thread"
    by (simp add: running_server_def)
  have ok: "\<not> shutdown_raises stuck_stop" "\<not> join_raises stuck_stop"
    by (simp_all add: stuck_stop_def graceful_stop_def)
  have w1: "wait_for_port_closed (port running_server) (4 / 5) 10 (port_open_1 stuck_stop)
      = (Inl PortNotClosed, polls (port running_server) (4 / 5) 10)"
    by (intro wait_all_open) (simp_all add: stuck_stop_def graceful_stop_def)
  have w2: "wait_for_port_closed p (1 / 2) 8 (port_open_2 stuck_stop)
      = (Inl PortNotClosed, polls p (1 / 2) 8)" for p
    by (intro wait_all_open) (simp_all add: stuck_stop_def graceful_stop_def)
  have k: "\<not> ps_raises stuck_stop" "process_pid (sample_thread\<lparr>auto_restart := False\<rparr>) = Some 4711"
      "\<not> process_missing stuck_stop"
    by (simp_all add: stuck_stop_def graceful_stop_def sample_thread_def)
  show ?thesis
    by (simp add: stop_after_join [OF t ok] w1 kill_manually_found [OF k] w2)
qed

subsection \<open>Starting\<close>

lemma check_dynamodb_trace:
  "count_action CheckHealth (snd (check_dynamodb out b)) = 1"
  "count_action (Sleep x) (snd (check_dynamodb out b)) = 0"
  "filter is_spawn (snd (check_dynamodb out b)) = []"
  by (simp_all add: check_dynamodb_def count_action_def Let_def
      split: option.splits table_names.splits)

lemma wait_for_dynamodb_no_spawn: "spawns (snd (wait_for_dynamodb oc)) = 0"
proof -
  have "filter is_spawn (snd (wait_for_dynamodb oc)) = []"
    unfolding wait_for_dynamodb_def retry_def
    by (rule retry_loop_filter) (simp_all add: check_dynamodb_trace)
  then show ?thesis by (simp add: spawns_def)
qed

lemma wait_for_dynamodb_ok_iff:
  "\<not> isl (fst (wait_for_dynamodb oc)) \<longleftrightarrow>
    (\<exists>j<10. \<not> isl (fst (check_dynamodb (list_tables oc j) False)))"
  unfolding wait_for_dynamodb_def retry_def retry_loop_ok_iff by simp

text \<open>
  The body of \<^verbatim>\<open>start_dynamodb\<close> past the idempotence test, when neither
  \<^verbatim>\<open>mkdir\<close> nor the installer nor the thread start raises.
\<close>

lemma start_body:
  assumes "\<not> (is_running s (thread_alive oc) \<and> is_up oc)"
    and "\<not> (truthy (db_path s) \<and> mkdir_raises oc)"
    and "\<not> install_raises oc" and "\<not> spawn_raises oc"
  shows "start_dynamodb c oc s =
    ((case fst (wait_for_dynamodb oc) of Inl e \<Rightarrow> Inl e | Inr u \<Rightarrow> Inr True),
     s\<lparr>started := True, stopped := False,
       thread := Some \<lparr> auto_restart = True,
         cmd = create_shell_command c (s\<lparr>started := False, stopped := False\<rparr>),
         env_vars = AList.update ''DDB_LOCAL_TELEMETRY'' ''0'' (get_java_env_vars c),
         process_pid = child_pid oc \<rparr>\<rparr>,
     [ClearStarted, ClearStopped]
       @ (if truthy (db_path s) then [Mkdir (fmt (db_path s))] else [])
       @ [Install, LogDebug, AppendTmpThreads,
          Spawn (create_shell_command c (s\<lparr>started := False, stopped := False\<rparr>))
            (AList.update ''DDB_LOCAL_TELEMETRY'' ''0'' (get_java_env_vars c))]
       @ snd (wait_for_dynamodb oc))"
proof -
  obtain r3 tr3 where w: "wait_for_dynamodb oc = (r3, tr3)"
    by (cases "wait_for_dynamodb oc")
  show ?thesis
  proof (cases r3)
    case (Inl e)
    with w assms show ?thesis
      by (simp add: start_dynamodb_def start_def do_start_thread_def Let_def)
  next
    case (Inr u)
    with w assms show ?thesis
      by (simp add: start_dynamodb_def start_def do_start_thread_def Let_def)
  qed
qed

lemma start_success_cause:
  assumes "\<not> (is_running s (thread_alive oc) \<and> is_up oc)"
    and "\<not> isl (fst (start_dynamodb c oc s))"
  shows "\<not> (truthy (db_path s) \<and> mkdir_raises oc) \<and> \<not> install_raises oc \<and> \<not> spawn_raises oc
    \<and> \<not> isl (fst (wait_for_dynamodb oc))"
proof -
  have mk: "\<not> (truthy (db_path s) \<and> mkdir_raises oc)"
    using assms by (auto simp: start_dynamodb_def Let_def)
  have inst: "\<not> install_raises oc"
    using assms mk by (auto simp: start_dynamodb_def start_def do_start_thread_def Let_def)
  have sp: "\<not> spawn_raises oc"
    using assms mk inst by (auto simp: start_dynamodb_def start_def do_start_thread_def Let_def)
  have "\<not> isl (fst (wait_for_dynamodb oc))"
    using assms(2) by (simp add: start_body [OF assms(1) mk inst sp] split: sum.splits)
  with mk inst sp show ?thesis by simp
qed

text \<open>
  Claim C1. If the server is running and passes the health check, \<^verbatim>\<open>start_dynamodb\<close>
  returns \<^verbatim>\<open>True\<close> at once: the server is unchanged and no action is performed. In
  particular, after a start that really started the server and returned, a second start
  that finds the thread alive and the health check passing returns \<^verbatim>\<open>True\<close> without
  any action, so that the two calls together spawn exactly one process.
\<close>

theorem start_idempotent:
  "(is_running s (thread_alive oc) \<and> is_up oc \<longrightarrow> start_dynamodb c oc s = (Inr True, s, []))
   \<and> (\<not> (is_running s (thread_alive o1) \<and> is_up o1) \<and> \<not> isl (fst (start_dynamodb c o1 s))
        \<and> thread_alive o2 \<and> is_up o2 \<longrightarrow>
      (case start_dynamodb c o1 s of
        (r1, s1, tr1) \<Rightarrow>
          r1 = Inr True \<and> spawns tr1 = 1
          \<and> start_dynamodb c o2 s1 = (Inr True, s1, [])
          \<and> spawns (tr1 @ snd (snd (start_dynamodb c o2 s1))) = 1))"
proof (intro conjI impI)
  assume "is_running s (thread_alive oc) \<and> is_up oc"
  then show "start_dynamodb c oc s = (Inr True, s, [])"
    by (simp add: start_dynamodb_def)
next
  assume a: "\<not> (is_running s (thread_alive o1) \<and> is_up o1)
      \<and> \<not> isl (fst (start_dynamodb c o1 s)) \<and> thread_alive o2 \<and> is_up o2"
  then have fresh: "\<not> (is_running s (thread_alive o1) \<and> is_up o1)"
    and ok: "\<not> isl (fst (start_dynamodb c o1 s))"
    by simp_all
  from start_success_cause [OF fresh ok]
  have mk: "\<not> (truthy (db_path s) \<and> mkdir_raises o1)"
    and inst: "\<not> install_raises o1" and sp: "\<not> spawn_raises o1"
    and up: "\<not> isl (fst (wait_for_dynamodb o1))"
    by simp_all
  obtain r1 s1 tr1 where first: "start_dynamodb c o1 s = (r1, s1, tr1)"
    by (cases "start_dynamodb c o1 s")
  from first up have r1: "r1 = Inr True"
    by (simp add: start_body [OF fresh mk inst sp] split: sum.splits)
  from first have tr1: "spawns tr1 = 1"
    using wait_for_dynamodb_no_spawn [of o1]
    by (auto simp: start_body [OF fresh mk inst sp] spawns_def)
  from first have "is_running s1 True"
    by (auto simp: start_body [OF fresh mk inst sp] is_running_def)
  with a have second: "start_dynamodb c o2 s1 = (Inr True, s1, [])"
    by (simp add: start_dynamodb_def)
  from r1 tr1 second first
  show "case start_dynamodb c o1 s of
      (r1, s1, tr1) \<Rightarrow>
        r1 = Inr True \<and> spawns tr1 = 1
        \<and> start_dynamodb c o2 s1 = (Inr True, s1, [])
        \<and> spawns (tr1 @ snd (snd (start_dynamodb c o2 s1))) = 1"
    by simp
qed

theorem start_idempotent_witness:
  "fst (start_dynamodb sample_config healthy_start sample_server) = Inr True
   \<and> spawns (snd (snd (start_dynamodb sample_config healthy_start sample_server))) = 1
   \<and> start_dynamodb sample_config healthy_start
        (fst (snd (start_dynamodb sample_config healthy_start sample_server)))
      = (Inr True, fst (snd (start_dynamodb sample_config healthy_start sample_server)), [])"
proof -
  have fresh: "\<not> (is_running sample_server (thread_alive healthy_start) \<and> is_up healthy_start)"
    by (simp add: is_running_def sample_server_def get_def DynamodbServer_def)
  have quiet: "\<not> (truthy (db_path sample_server) \<and> mkdir_raises healthy_start)"
      "\<not> install_raises healthy_start" "\<not> spawn_raises healthy_start"
    by (simp_all add: healthy_start_def)
  have "\<exists>j<10. \<not> isl (fst (check_dynamodb (list_tables healthy_start j) False))"
    by (intro exI [of _ 2]) (simp add: healthy_start_def check_dynamodb_def)
  then have up: "\<not> isl (fst (wait_for_dynamodb healthy_start))"
    by (simp add: wait_for_dynamodb_ok_iff)
  then have ok: "\<not> isl (fst (start_dynamodb sample_config healthy_start sample_server))"
    by (cases "fst (wait_for_dynamodb healthy_start)")
      (simp_all add: start_body [OF fresh quiet])
  have again: "thread_alive healthy_start \<and> is_up healthy_start"
    by (simp add: healthy_start_def)
  from start_idempotent [of sample_server healthy_start sample_config healthy_start healthy_start]
    fresh ok again
  show ?thesis by (simp add: case_prod_beta)
qed

text \<open>
  Claim C7. \<^verbatim>\<open>wait_for_dynamodb\<close> makes at most 10 health checks. When all 10 fail,
  it has made exactly 10, each followed by a sleep of 0.4 seconds, and raises the error of
  the last one; \<^verbatim>\<open>start_dynamodb\<close>, having spawned the child, does not catch that error
  but raises it to its caller.
\<close>

theorem health_check_timeout:
  "count_action CheckHealth (snd (wait_for_dynamodb oc)) \<le> 10
   \<and> ((\<forall>k<10. isl (fst (check_dynamodb (list_tables oc k) False))) \<longrightarrow>
        wait_for_dynamodb oc =
          (Inl (projl (fst (check_dynamodb (list_tables oc 9) False))),
           attempts (\<lambda>k. check_dynamodb (list_tables oc k) False) (2 / 5) 0 10)
        \<and> count_action CheckHealth (snd (wait_for_dynamodb oc)) = 10
        \<and> count_action (Sleep (2 / 5)) (snd (wait_for_dynamodb oc)) = 10
        \<and> (\<not> (is_running s (thread_alive oc) \<and> is_up oc)
            \<and> \<not> (truthy (db_path s) \<and> mkdir_raises oc)
            \<and> \<not> install_raises oc \<and> \<not> spawn_raises oc \<longrightarrow>
           fst (start_dynamodb c oc s) = Inl (projl (fst (check_dynamodb (list_tables oc 9) False)))
           \<and> spawns (snd (snd (start_dynamodb c oc s))) = 1))"
proof (intro conjI impI)
  show "count_action CheckHealth (snd (wait_for_dynamodb oc)) \<le> 10"
    unfolding wait_for_dynamodb_def retry_def
    by (rule retry_loop_count) (simp_all add: check_dynamodb_trace)
next
  assume all: "\<forall>k<10. isl (fst (check_dynamodb (list_tables oc k) False))"
  then have "\<forall>j<10. isl (fst (check_dynamodb (list_tables oc (0 + j)) False))" by simp
  from retry_loop_exhausted [where f = "\<lambda>k. check_dynamodb (list_tables oc k) False", OF this]
  show w: "wait_for_dynamodb oc =
      (Inl (projl (fst (check_dynamodb (list_tables oc 9) False))),
       attempts (\<lambda>k. check_dynamodb (list_tables oc k) False) (2 / 5) 0 10)"
    by (simp add: wait_for_dynamodb_def retry_def)
  show "count_action CheckHealth (snd (wait_for_dynamodb oc)) = 10"
    by (simp add: w attempts_count [where c = 1] check_dynamodb_trace)
  show "count_action (Sleep (2 / 5)) (snd (wait_for_dynamodb oc)) = 10"
    by (simp add: w attempts_count [where c = 0] check_dynamodb_trace)
  assume b: "\<not> (is_running s (thread_alive oc) \<and> is_up oc)
      \<and> \<not> (truthy (db_path s) \<and> mkdir_raises oc)
      \<and> \<not> install_raises oc \<and> \<not> spawn_raises oc"
  then have body: "\<not> (is_running s (thread_alive oc) \<and> is_up oc)"
      "\<not> (truthy (db_path s) \<and> mkdir_raises oc)" "\<not> install_raises oc" "\<not> spawn_raises oc"
    by simp_all
  show "fst (start_dynamodb c oc s) = Inl (projl (fst (check_dynamodb (list_tables oc 9) False)))"
    by (simp add: start_body [OF body] w)
  show "spawns (snd (snd (start_dynamodb c oc s))) = 1"
    using wait_for_dynamodb_no_spawn [of oc]
    by (simp add: start_body [OF body] spawns_def)
qed

theorem health_check_timeout_witness:
  "fst (start_dynamodb sample_config never_up sample_server) = Inl TypeError
   \<and> count_action CheckHealth (snd (wait_for_dynamodb never_up)) = 10
   \<and> count_action (Sleep (2 / 5)) (snd (wait_for_dynamodb never_up)) = 10"
proof -
  have all: "\<forall>k<10. isl (fst (check_dynamodb (list_tables never_up k) False))"
    by (simp add: never_up_def healthy_start_def check_dynamodb_def)
  have body: "\<not> (is_running sample_server (thread_alive never_up) \<and> is_up never_up)
      \<and> \<not> (truthy (db_path sample_server) \<and> mkdir_raises never_up)
      \<and> \<not> install_raises never_up \<and> \<not> spawn_raises never_up"
    by (simp add: is_running_def sample_server_def get_def DynamodbServer_def never_up_def
        healthy_start_def)
  have last: "projl (fst (check_dynamodb (list_tables never_up 9) False)) = TypeError"
    by (simp add: never_up_def healthy_start_def check_dynamodb_def)
  from health_check_timeout [of never_up sample_server sample_config] all body
  have "fst (start_dynamodb sample_config never_up sample_server)
      = Inl (projl (fst (check_dynamodb (list_tables never_up 9) False)))
    \<and> count_action CheckHealth (snd (wait_for_dynamodb never_up)) = 10
    \<and> count_action (Sleep (2 / 5)) (snd (wait_for_dynamodb never_up)) = 10"
    by blast
  with last show ?thesis by simp
qed

end
